theory Spec2Isabelle
  imports Main "HOL-Library.AList" "HOL-Library.Char_ord" "HOL-Library.List_Lexorder" "HOL-Library.Product_Lexorder"
begin

section \<open>Python string primitives\<close>

text \<open>
  Strings are byte strings (\<open>char list\<close>). The Python methods used by the sources are
  modelled on ASCII: \<open>str.strip()\<close> removes the ASCII whitespace characters,
  \<open>str.lower()\<close> maps \<open>A..Z\<close> to \<open>a..z\<close>, \<open>str.isdigit()\<close> accepts
  non-empty strings of \<open>0..9\<close>.
\<close>

definition is_space :: "char \<Rightarrow> bool" where
  "is_space c = (c \<in> set [CHR 0x09, CHR 0x0A, CHR 0x0B, CHR 0x0C, CHR 0x0D,
                            CHR 0x1C, CHR 0x1D, CHR 0x1E, CHR 0x1F, CHR 0x20])"

definition strip :: "string \<Rightarrow> string" where
  "strip s = rev (dropWhile is_space (rev (dropWhile is_space s)))"

definition lower_char :: "char \<Rightarrow> char" where
  "lower_char c = (let n = (of_char c :: nat) in if 65 \<le> n \<and> n \<le> 90 then char_of (n + 32) else c)"

definition lower :: "string \<Rightarrow> string" where
  "lower s = map lower_char s"

definition is_digit :: "char \<Rightarrow> bool" where
  "is_digit c = (let n = (of_char c :: nat) in 48 \<le> n \<and> n \<le> 57)"

definition isdigit :: "string \<Rightarrow> bool" where
  "isdigit s = (s \<noteq> [] \<and> list_all is_digit s)"

text \<open>\<open>p in s\<close> for strings: \<open>p\<close> occurs as a contiguous substring of \<open>s\<close>.\<close>

fun is_substr :: "string \<Rightarrow> string \<Rightarrow> bool" where
  "is_substr p [] = (p = [])"
| "is_substr p (c # cs) = (take (length p) (c # cs) = p \<or> is_substr p cs)"

text \<open>\<open>s.replace(old, new)\<close> for a non-empty \<open>old\<close>: left to right, non-overlapping.\<close>

fun replace :: "string \<Rightarrow> string \<Rightarrow> string \<Rightarrow> string" where
  "replace old new [] = []"
| "replace old new (c # cs) =
     (if old \<noteq> [] \<and> take (length old) (c # cs) = old
      then new @ replace old new (drop (length old - 1) cs)
      else c # replace old new cs)"

text \<open>\<open>int(s)\<close> for a string of decimal digits, and \<open>str(n)\<close> for \<open>n \<ge> 0\<close>.\<close>

definition int_of_str :: "string \<Rightarrow> int" where
  "int_of_str s = foldl (\<lambda>n c. 10 * n + (of_char c - 48)) 0 s"


text \<open>Index of the first element that satisfies a test (a \<open>for i, h in enumerate(...)\<close>
  loop that returns \<open>i\<close> at the first hit).\<close>

fun find_first :: "('a \<Rightarrow> bool) \<Rightarrow> 'a list \<Rightarrow> nat option" where
  "find_first P [] = None"
| "find_first P (x # xs) = (if P x then Some 0 else map_option Suc (find_first P xs))"

section \<open>Topology crawl (topology\_crawl.py)\<close>

subsection \<open>Base types\<close>

record DeviceKey =
  serial :: "string option"
  mgmt_ip :: "string option"

text \<open>\<open>DeviceKey.best\<close>: \<open>self.serial or self.mgmt_ip or "unknown"\<close>; \<open>None\<close> and the
  empty string are both falsy.\<close>

definition truthy :: "string option \<Rightarrow> bool" where
  "truthy v = (case v of None \<Rightarrow> False | Some s \<Rightarrow> s \<noteq> [])"

definition best :: "DeviceKey \<Rightarrow> string" where
  "best k = (if truthy (serial k) then the (serial k)
             else if truthy (mgmt_ip k) then the (mgmt_ip k)
             else ''unknown'')"

record Neighbor =
  device_id :: string
  neigh_mgmt_ip :: "string option"

text \<open>One collected command: \<open>(cmd, raw, headers, rows)\<close>.\<close>

type_synonym command_result = "string \<times> string \<times> string list \<times> string list list"
type_synonym collected = "command_result list"

subsection \<open>The external world of the crawl\<close>

text \<open>
  The collector, the DNS resolver, the report writers and Python's \<open>ipaddress\<close> library
  are outside the repository; the crawl is modelled relative to them. A call that raises is
  \<open>None\<close> (or \<open>False\<close> for the calls whose result is not used).
\<close>

record ('ip, 'net) env =
  collect :: "string \<Rightarrow> (string \<times> string \<times> collected \<times> string) option"
  makedirs_ok :: "string \<Rightarrow> bool"
  snapshot_ok :: "string \<Rightarrow> string \<Rightarrow> bool"
  excel_ok :: "string \<Rightarrow> bool"
  gethostbyname :: "string \<Rightarrow> string option"
  ip_address :: "string \<Rightarrow> 'ip option"
  ip_network :: "string \<Rightarrow> 'net option"
  net_contains :: "'net \<Rightarrow> 'ip \<Rightarrow> bool"

record config =
  seed_ip :: string
  max_depth :: int
  allowed_subnets :: "string list option"
  dns_fallback :: bool
  hostmap :: "(string \<rightharpoonup> string) option"
  out_dir_override :: "string option"

subsection \<open>Helpers\<close>

definition norm :: "string \<Rightarrow> string" where
  "norm s = strip s"

text \<open>The loop of \<open>_in_allowed_subnets\<close> over the allow-list: an entry that
  \<open>ip_network\<close> rejects is skipped by \<open>except Exception: continue\<close>.\<close>

fun any_subnet_contains :: "('ip, 'net) env \<Rightarrow> 'ip \<Rightarrow> string list \<Rightarrow> bool" where
  "any_subnet_contains env ipx [] = False"
| "any_subnet_contains env ipx (cidr # rest) =
     (case ip_network env cidr of
        None \<Rightarrow> any_subnet_contains env ipx rest
      | Some net \<Rightarrow> (if net_contains env net ipx then True
                     else any_subnet_contains env ipx rest))"

definition in_allowed_subnets :: "('ip, 'net) env \<Rightarrow> string \<Rightarrow> string list option \<Rightarrow> bool" where
  "in_allowed_subnets env ip allowed =
     (case allowed of
        None \<Rightarrow> True
      | Some [] \<Rightarrow> True
      | Some cidrs \<Rightarrow>
          (case ip_address env ip of
             None \<Rightarrow> False
           | Some ipx \<Rightarrow> any_subnet_contains env ipx cidrs))"

definition resolve_dns :: "('ip, 'net) env \<Rightarrow> string \<Rightarrow> string option" where
  "resolve_dns env name = gethostbyname env name"

text \<open>\<open>{h.strip().lower(): i}\<close>: a later header with the same normalised name wins.\<close>

definition headers_index_map :: "string list \<Rightarrow> (string \<rightharpoonup> nat)" where
  "headers_index_map headers =
     fold (\<lambda>(i, h) m. m(lower (strip h) \<mapsto> i)) (enumerate 0 headers) Map.empty"

definition find_col_idx :: "string list \<Rightarrow> string list \<Rightarrow> string list \<Rightarrow> nat option" where
  "find_col_idx headers exact contains =
     (if headers = [] then None
      else
        let exact' = map (\<lambda>e. replace '' '' ''_'' (lower (strip e))) exact;
            contains' = map (\<lambda>c. lower (strip c)) contains;
            norm_h = map (\<lambda>h. lower (strip h)) headers;
            norm_underscore = map (replace '' '' ''_'') norm_h
        in (case find_first (\<lambda>h. h \<in> set exact') norm_underscore of
              Some i \<Rightarrow> Some i
            | None \<Rightarrow> find_first (\<lambda>h. list_ex (\<lambda>c. is_substr c h) contains') norm_h))"

text \<open>First loop of \<open>_extract_device_key_from_collected\<close>: the serial of
  \<open>show version\<close>; the argument is the value of \<open>serial\<close> so far.\<close>

fun version_serial :: "string option \<Rightarrow> collected \<Rightarrow> string option" where
  "version_serial ser [] = ser"
| "version_serial ser ((cmd, raw, headers, rows) # rest) =
     (let cl = lower (strip cmd) in
      if is_substr ''show version'' cl \<and> headers \<noteq> [] \<and> rows \<noteq> [] then
        (case headers_index_map headers ''serial'' of
           None \<Rightarrow> version_serial ser rest
         | Some i \<Rightarrow>
             if i < length (hd rows) then
               (let s = norm (hd rows ! i) in
                if s \<noteq> [] then Some s else version_serial (Some s) rest)
             else version_serial ser rest)
      else version_serial ser rest)"

text \<open>Second loop: the serial of \<open>show inventory\<close>, first non-empty cell of the
  serial column.\<close>

fun inventory_serial :: "string option \<Rightarrow> collected \<Rightarrow> string option" where
  "inventory_serial ser [] = ser"
| "inventory_serial ser ((cmd, raw, headers, rows) # rest) =
     (let cl = lower (strip cmd);
          ser' = (if is_substr ''show inventory'' cl \<and> headers \<noteq> [] \<and> rows \<noteq> [] then
                    (case find_col_idx headers [''serial'', ''sn''] [''serial''] of
                       None \<Rightarrow> ser
                     | Some i \<Rightarrow>
                         (case find (\<lambda>sv. sv \<noteq> [])
                                 (map (\<lambda>r. if i < length r then norm (r ! i) else []) rows) of
                            None \<Rightarrow> ser
                          | Some sv \<Rightarrow> Some sv))
                  else ser)
      in if truthy ser' then ser' else inventory_serial ser' rest)"

definition extract_device_key_from_collected :: "collected \<Rightarrow> DeviceKey" where
  "extract_device_key_from_collected c =
     (let ser = version_serial None c;
          ser = (if \<not> truthy ser then inventory_serial ser c else ser)
      in \<lparr>serial = ser, mgmt_ip = None\<rparr>)"

text \<open>\<open>collect_from\<close> inside \<open>_extract_neighbors_from_collected\<close>.\<close>

definition neighbor_of_row :: "nat option \<Rightarrow> nat option \<Rightarrow> string list \<Rightarrow> Neighbor" where
  "neighbor_of_row dev_idx ip_idx r =
     (let cell = (\<lambda>idx. case idx of None \<Rightarrow> [] | Some i \<Rightarrow> if i < length r then strip (r ! i) else []);
          dev = cell dev_idx;
          ipv = cell ip_idx;
          dev = (if dev \<noteq> [] \<and> lower dev \<noteq> ''not advertised'' then dev else []);
          ipv = (if ipv \<noteq> [] \<and> lower ipv \<noteq> ''not advertised'' then ipv else [])
      in \<lparr>device_id = dev, neigh_mgmt_ip = (if ipv \<noteq> [] then Some ipv else None)\<rparr>)"

fun collect_from :: "string \<Rightarrow> collected \<Rightarrow> Neighbor list" where
  "collect_from cmd_name_match [] = []"
| "collect_from cmd_name_match ((cmd, raw, headers, rows) # rest) =
     (if \<not> is_substr cmd_name_match (lower cmd) then collect_from cmd_name_match rest
      else if headers = [] \<or> rows = [] then collect_from cmd_name_match rest
      else
        let dev_idx = find_col_idx headers
              [''neighbor_name'', ''Neighbour_name'', ''destination_host'', ''device_id'',
               ''device'', ''remote_system_name'', ''system_name'']
              [''device id'', ''destination'', ''system name'', ''remote_system''];
            ip_idx = find_col_idx headers
              [''mgmt_address'', ''Mgmt_address'', ''management_ip'', ''mgmt_ip'',
               ''ip_address'', ''management_address'']
              [''ip address'', ''management address'', ''mgmt addr'']
        in map (neighbor_of_row dev_idx ip_idx) rows @ collect_from cmd_name_match rest)"

definition extract_neighbors_from_collected :: "collected \<Rightarrow> Neighbor list" where
  "extract_neighbors_from_collected c =
     (let out = collect_from ''cdp neighbors detail'' c
      in if out \<noteq> [] then out else collect_from ''lldp neighbors detail'' c)"

text \<open>\<open>os.path.join\<close> with two components (POSIX).\<close>

definition path_join :: "string \<Rightarrow> string \<Rightarrow> string" where
  "path_join a b =
     (if take 1 b = ''/'' then b
      else if a = [] \<or> last a = CHR ''/'' then a @ b
      else a @ ''/'' @ b)"

subsection \<open>The scheduler\<close>

record crawl_state =
  results :: "(string \<times> string) list"
  visited_keys :: "string set"
  seen_ips :: "string set"
  queue :: "(string \<times> int) list"
  snapshots :: "(string \<times> string \<times> string) list"
  excels :: "string list"

text \<open>Lines 282--289 of \<open>crawl_topology\<close>: the address of one neighbour after the
  adjacency table, the DNS fallback and the host map.\<close>

definition resolve_nip :: "('ip, 'net) env \<Rightarrow> config \<Rightarrow> Neighbor \<Rightarrow> string" where
  "resolve_nip env cfg n =
     (let hm = (case hostmap cfg of None \<Rightarrow> Map.empty | Some m \<Rightarrow> m);
          nip = strip (case neigh_mgmt_ip n of None \<Rightarrow> [] | Some a \<Rightarrow> a);
          nip = (if nip = [] \<and> dns_fallback cfg \<and> device_id n \<noteq> [] then
                   (case resolve_dns env (device_id n) of
                      None \<Rightarrow> nip
                    | Some resolved \<Rightarrow> if resolved \<noteq> [] then resolved else nip)
                 else nip)
      in (case hm (device_id n) of Some a \<Rightarrow> a | None \<Rightarrow> nip))"

text \<open>Lines 290--298: one pass of the neighbour loop over the queue.\<close>

definition enqueue_neighbor ::
  "('ip, 'net) env \<Rightarrow> config \<Rightarrow> string set \<Rightarrow> int \<Rightarrow> (string \<times> int) list \<Rightarrow> Neighbor
     \<Rightarrow> (string \<times> int) list" where
  "enqueue_neighbor env cfg seen depth q n =
     (let nip = resolve_nip env cfg n in
      if nip = [] then q
      else if \<not> in_allowed_subnets env nip (allowed_subnets cfg) then q
      else if nip \<notin> seen then q @ [(nip, depth + 1)]
      else q)"

definition enqueue_neighbors ::
  "('ip, 'net) env \<Rightarrow> config \<Rightarrow> string set \<Rightarrow> int \<Rightarrow> (string \<times> int) list \<Rightarrow> Neighbor list
     \<Rightarrow> (string \<times> int) list" where
  "enqueue_neighbors env cfg seen depth q ns = foldl (enqueue_neighbor env cfg seen depth) q ns"

text \<open>Step 3 of the loop body (snapshot, raw outputs, Excel); the flag is \<open>False\<close> when
  one of the writers raised, which leaves the \<open>try\<close> block.\<close>

definition report ::
  "('ip, 'net) env \<Rightarrow> string \<Rightarrow> string \<Rightarrow> string \<Rightarrow> string \<Rightarrow> string \<Rightarrow> crawl_state
     \<Rightarrow> crawl_state \<times> bool" where
  "report env host ts outdir xlsx_path key_id st =
     (let st1 = st\<lparr>visited_keys := insert key_id (visited_keys st)\<rparr> in
      if \<not> snapshot_ok env host ts then (st1, False)
      else
        let st2 = st1\<lparr>snapshots := snapshots st1 @ [(outdir, host, ts)]\<rparr> in
        if \<not> excel_ok env xlsx_path then (st2, False)
        else (st2\<lparr>excels := excels st2 @ [xlsx_path],
                  results := results st2 @ [(host, xlsx_path)]\<rparr>, True))"

text \<open>The \<open>try\<close> block of the loop body for an address that passed the checks.\<close>

definition visit :: "('ip, 'net) env \<Rightarrow> config \<Rightarrow> string \<Rightarrow> int \<Rightarrow> crawl_state \<Rightarrow> crawl_state" where
  "visit env cfg ip depth st =
     (case collect env ip of
        None \<Rightarrow> st
      | Some (host, ts, c, outdir0) \<Rightarrow>
          (case (if truthy (out_dir_override cfg)
                 then (if makedirs_ok env (the (out_dir_override cfg))
                       then Some (the (out_dir_override cfg)) else None)
                 else Some outdir0) of
             None \<Rightarrow> st
           | Some outdir \<Rightarrow>
               let xlsx_path = path_join outdir (host @ ''_levantamento.xlsx'');
                   key_id = best (extract_device_key_from_collected c);
                   (st', ok) = (if key_id \<in> visited_keys st then (st, True)
                                else report env host ts outdir xlsx_path key_id st)
               in if \<not> ok then st'
                  else if depth < max_depth cfg then
                    st'\<lparr>queue := enqueue_neighbors env cfg (seen_ips st') depth (queue st')
                                    (extract_neighbors_from_collected c)\<rparr>
                  else st'))"

text \<open>One iteration of \<open>while queue:\<close>.\<close>

definition crawl_step :: "('ip, 'net) env \<Rightarrow> config \<Rightarrow> crawl_state \<Rightarrow> crawl_state" where
  "crawl_step env cfg st =
     (case queue st of
        [] \<Rightarrow> st
      | (ip, depth) # q \<Rightarrow>
          let st = st\<lparr>queue := q\<rparr> in
          if ip \<in> seen_ips st then st
          else
            let st = st\<lparr>seen_ips := insert ip (seen_ips st)\<rparr> in
            if \<not> in_allowed_subnets env ip (allowed_subnets cfg) then st
            else visit env cfg ip depth st)"

text \<open>The loop has no bound of its own (a collector may report fresh neighbours for ever);
  it is run with fuel, \<open>None\<close> meaning that the fuel ran out before the queue was empty.\<close>

fun crawl_loop :: "nat \<Rightarrow> ('ip, 'net) env \<Rightarrow> config \<Rightarrow> crawl_state \<Rightarrow> crawl_state option" where
  "crawl_loop 0 env cfg st = (if queue st = [] then Some st else None)"
| "crawl_loop (Suc k) env cfg st =
     (if queue st = [] then Some st else crawl_loop k env cfg (crawl_step env cfg st))"

definition init_state :: "config \<Rightarrow> crawl_state" where
  "init_state cfg = \<lparr>results = [], visited_keys = {}, seen_ips = {},
                     queue = [(seed_ip cfg, 0)], snapshots = [], excels = []\<rparr>"

definition crawl_topology ::
  "nat \<Rightarrow> ('ip, 'net) env \<Rightarrow> config \<Rightarrow> (string \<times> string) list option" where
  "crawl_topology fuel env cfg = map_option results (crawl_loop fuel env cfg (init_state cfg))"


section \<open>Snapshot differences (ideia6\_features.py)\<close>

subsection \<open>More string primitives\<close>

text \<open>\<open>s.split(sep)\<close> for a one-character separator.\<close>

fun split_on :: "char \<Rightarrow> string \<Rightarrow> string list" where
  "split_on sep [] = [[]]"
| "split_on sep (c # cs) =
     (if c = sep then [] # split_on sep cs
      else (case split_on sep cs of [] \<Rightarrow> [[c]] | w # ws \<Rightarrow> (c # w) # ws))"




subsection \<open>Python sets that are iterated\<close>


subsection \<open>Parsed tables\<close>

text \<open>
  A parsed row is a Python dict from header to cell, a command map a dict from command to
  its parsed rows; both keep insertion order, and assigning to an existing key keeps the
  key's position (\<open>AList.update\<close>).
\<close>

type_synonym row = "(string \<times> string) list"
type_synonym cmdmap = "(string \<times> row list) list"

record snapshot =
  hostname :: string
  timestamp :: string
  items :: collected

definition parse_item :: "command_result \<Rightarrow> string \<times> row list" where
  "parse_item it =
     (case it of (cmd0, raw, headers0, rows) \<Rightarrow>
        let cmd = lower (strip cmd0);
            headers = map strip headers0
        in if headers \<noteq> [] \<and> rows \<noteq> [] then
             (let low = map lower headers
              in (cmd, map (\<lambda>r. fold (\<lambda>(h, v) d. AList.update h v d) (zip low r) []) rows))
           else (cmd, []))"

definition snapshot_to_cmdmap :: "snapshot \<Rightarrow> cmdmap" where
  "snapshot_to_cmdmap snap =
     fold (\<lambda>it out. AList.update (fst (parse_item it)) (snd (parse_item it)) out) (items snap) []"

fun get_parsed :: "cmdmap \<Rightarrow> string \<Rightarrow> row list" where
  "get_parsed [] key = []"
| "get_parsed ((k, v) # rest) key = (if is_substr (lower key) k then v else get_parsed rest key)"

definition norm_ifname :: "string \<Rightarrow> string" where
  "norm_ifname s =
     (let s = strip s;
          s = replace ''GigabitEthernet'' ''Gi'' s;
          s = replace ''TenGigabitEthernet'' ''Te'' s;
          s = replace ''FastEthernet'' ''Fa'' s;
          s = replace ''Port-channel'' ''Po'' s;
          s = replace ''Port-Channel'' ''Po'' s;
          s = replace ''Ethernet'' ''Eth'' s
      in s)"


text \<open>\<open>_pick\<close>: the first value that is present and not blank.\<close>

fun pick :: "row \<Rightarrow> string list \<Rightarrow> string" where
  "pick d [] = []"
| "pick d (k # ks) =
     (case map_of d k of
        None \<Rightarrow> pick d ks
      | Some v \<Rightarrow> if strip v \<noteq> [] then v else pick d ks)"

subsection \<open>Allowed-VLAN ranges\<close>





subsection \<open>VLANs\<close>

record vlan_delta =
  vlans_added :: "string list"
  vlans_removed :: "string list"




subsection \<open>Interfaces, port-channels and trunks\<close>



record interface_delta =
  interface :: string
  status_from :: string
  status_to :: string
  vlan_from :: string
  vlan_to :: string



record portchannel_delta =
  po :: string
  state_from :: string
  state_to :: string
  members_from :: string
  members_to :: string




record trunk_delta =
  trunk_interface :: string
  native_from :: string
  native_to :: string
  allowed_from :: string
  allowed_to :: string



subsection \<open>Neighbours\<close>

record neighbor_row =
  neighbor :: string
  local_if :: string
  neighbor_if :: string
  proto :: string

record neighbor_ref =
  ref_neighbor :: string
  ref_local_if :: string
  ref_neighbor_if :: string

record neighbor_delta =
  neighbors_added :: "neighbor_ref list"
  neighbors_removed :: "neighbor_ref list"

definition nk :: "row \<Rightarrow> row" where
  "nk d = fold (\<lambda>(k, v) out.
                  AList.update (replace ''-'' ''_'' (replace '' '' ''_'' (lower (strip k)))) v out)
            d []"

definition neighbor_rows_from_parsed :: "row list \<Rightarrow> string \<Rightarrow> neighbor_row list" where
  "neighbor_rows_from_parsed lst pr =
     concat (map (\<lambda>raw.
        let d = nk raw;
            nb = strip (pick d [''neighbor'', ''neighbor_name'', ''device_id'', ''system_name'',
                                ''system_name_value'', ''chassis_id''])
        in if nb = [] then []
           else [\<lparr>neighbor = nb,
                   local_if = norm_ifname (pick d [''local_if'', ''local_interface'',
                                                   ''local_port'', ''local port'', ''interface'']),
                   neighbor_if = norm_ifname (pick d [''neighbor_if'', ''neighbor_interface'',
                                                      ''neighbor_port'', ''port_id'',
                                                      ''port description'', ''port_description'',
                                                      ''port_id_value'']),
                   proto = pr\<rparr>]) lst)"

definition collect_neighbors :: "cmdmap \<Rightarrow> neighbor_row list" where
  "collect_neighbors map_obj =
     (let cdp = get_parsed map_obj ''show cdp neighbors detail'';
          lldp = get_parsed map_obj ''show lldp neighbors detail'';
          lldp = (if lldp = [] then get_parsed map_obj ''show lldp neighbors'' else lldp)
      in neighbor_rows_from_parsed cdp ''CDP'' @ neighbor_rows_from_parsed lldp ''LLDP'')"

definition neighbor_key :: "neighbor_row \<Rightarrow> string \<times> string" where
  "neighbor_key r = (lower (strip (neighbor r)), lower (strip (neighbor_if r)))"

text \<open>One pass of the loop of \<open>_merge_by_neighbor_port\<close>.\<close>

definition merge_row ::
  "neighbor_row \<Rightarrow> ((string \<times> string) \<times> neighbor_row) list
     \<Rightarrow> ((string \<times> string) \<times> neighbor_row) list" where
  "merge_row r merged =
     (let k = neighbor_key r in
      case map_of merged k of
        None \<Rightarrow> AList.update k r merged
      | Some old \<Rightarrow>
          if local_if old = [] \<and> local_if r \<noteq> []
          then AList.update k (old\<lparr>local_if := local_if r\<rparr>) merged
          else merged)"

definition merge_by_neighbor_port ::
  "neighbor_row list \<Rightarrow> ((string \<times> string) \<times> neighbor_row) list" where
  "merge_by_neighbor_port rows = fold merge_row rows []"

definition ref_of :: "neighbor_row \<Rightarrow> neighbor_ref" where
  "ref_of r = \<lparr>ref_neighbor = neighbor r, ref_local_if = local_if r,
              ref_neighbor_if = neighbor_if r\<rparr>"

text \<open>\<open>[rows[k] for k in keys]\<close>; every key is a key of \<open>rows\<close>.\<close>

definition refs_at ::
  "((string \<times> string) \<times> neighbor_row) list \<Rightarrow> (string \<times> string) list \<Rightarrow> neighbor_ref list" where
  "refs_at rows ks =
     concat (map (\<lambda>k. case map_of rows k of None \<Rightarrow> [] | Some r \<Rightarrow> [ref_of r]) ks)"

definition diff_neighbors :: "cmdmap \<Rightarrow> cmdmap \<Rightarrow> neighbor_delta" where
  "diff_neighbors prev_map curr_map =
     (let prev_rows = merge_by_neighbor_port (collect_neighbors prev_map);
          curr_rows = merge_by_neighbor_port (collect_neighbors curr_map);
          added_keys = sorted_list_of_set (set (map fst curr_rows) - set (map fst prev_rows));
          removed_keys = sorted_list_of_set (set (map fst prev_rows) - set (map fst curr_rows))
      in \<lparr>neighbors_added = refs_at curr_rows added_keys,
          neighbors_removed = refs_at prev_rows removed_keys\<rparr>)"

text \<open>The composite key of a delta entry, computed as the merge computes it for a row.\<close>

definition ref_key :: "neighbor_ref \<Rightarrow> string \<times> string" where
  "ref_key e = (lower (strip (ref_neighbor e)), lower (strip (ref_neighbor_if e)))"

subsection \<open>All domains\<close>

record deltas =
  vlans :: vlan_delta
  interfaces :: "interface_delta list"
  portchannels :: "portchannel_delta list"
  trunks :: "trunk_delta list"
  neighbors :: neighbor_delta




section \<open>Snapshot store (history\_json.py)\<close>













section \<open>Concrete instances\<close>

text \<open>
  An instance of the address library for IPv4 in dotted-quad and prefix-length notation
  (\<open>ip_network(cidr, strict=False)\<close> masks the host bits), and the small worlds on which
  the properties below are evaluated.
\<close>

definition octet_ok :: "string \<Rightarrow> bool" where
  "octet_ok s = (isdigit s \<and> length s \<le> 3 \<and> \<not> (1 < length s \<and> hd s = CHR ''0'')
                 \<and> int_of_str s \<le> 255)"

definition ipv4_address :: "string \<Rightarrow> int option" where
  "ipv4_address s =
     (let parts = split_on CHR ''.'' s in
      if length parts = 4 \<and> list_all octet_ok parts
      then Some (foldl (\<lambda>a p. 256 * a + int_of_str p) 0 parts) else None)"

definition ipv4_network :: "string \<Rightarrow> (int \<times> int) option" where
  "ipv4_network s =
     (case split_on CHR ''/'' s of
        [a] \<Rightarrow> map_option (\<lambda>x. (x, 32)) (ipv4_address a)
      | [a, p] \<Rightarrow>
          (if isdigit p \<and> int_of_str p \<le> 32
           then map_option (\<lambda>x. (x, int_of_str p)) (ipv4_address a) else None)
      | _ \<Rightarrow> None)"

definition ipv4_contains :: "int \<times> int \<Rightarrow> int \<Rightarrow> bool" where
  "ipv4_contains net ipx =
     (ipx div 2 ^ nat (32 - snd net) = fst net div 2 ^ nat (32 - snd net))"

text \<open>Device A at 10.0.0.1 reports the neighbour B at 10.0.0.2; neither table holds a
  serial number. Every writer succeeds and DNS resolves nothing.\<close>

definition collected_A :: collected where
  "collected_A =
     [(''show cdp neighbors detail'', [], [''Device ID'', ''IP address''],
       [[''swB'', ''10.0.0.2'']])]"

definition two_switches :: "(int, int \<times> int) env" where
  "two_switches =
     \<lparr>collect = (\<lambda>ip. if ip = ''10.0.0.1''
                         then Some (''swA'', ''2024-01-01_00-00-00'', collected_A, ''out'')
                       else if ip = ''10.0.0.2''
                         then Some (''swB'', ''2024-01-01_00-00-05'', [], ''out'')
                       else None),
      makedirs_ok = (\<lambda>_. True), snapshot_ok = (\<lambda>_ _. True), excel_ok = (\<lambda>_. True),
      gethostbyname = (\<lambda>_. None),
      ip_address = ipv4_address, ip_network = ipv4_network, net_contains = ipv4_contains\<rparr>"

definition crawl_cfg :: config where
  "crawl_cfg = \<lparr>seed_ip = ''10.0.0.1'', max_depth = 1, allowed_subnets = None,
                dns_fallback = True, hostmap = None, out_dir_override = None\<rparr>"


text \<open>A snapshot with a VLAN table, an interface, a trunk port without native VLAN and
  allowed list, and one adjacency seen by both CDP and LLDP.\<close>

definition snap_example :: snapshot where
  "snap_example =
     \<lparr>hostname = ''sw1'', timestamp = ''2024-01-01_00-00-00'',
      items =
        [(''show vlan brief'', [], [''VLAN'', ''Name''], [[''10'', ''users''], [''20'', ''voice'']]),
         (''show interfaces status'', [], [''Port'', ''Status'', ''Vlan''],
          [[''GigabitEthernet1/0/1'', ''connected'', ''10'']]),
         (''show interfaces trunk'', [], [''Port'', ''Native vlan''], [[''Gi1/0/24'']]),
         (''show cdp neighbors detail'', [], [''Device ID'', ''Local Interface'', ''Port ID''],
          [[''swB'', ''Gi1/0/1'', ''Gi0/1'']]),
         (''show lldp neighbors detail'', [], [''System Name'', ''Port id''],
          [[''SWB'', ''gi0/1'']])]\<rparr>"


section \<open>Properties of the crawl\<close>

subsection \<open>Auxiliary facts\<close>

lemma any_subnet_contains_iff:
  "any_subnet_contains env ipx cidrs =
     (\<exists>c \<in> set cidrs. \<exists>net. ip_network env c = Some net \<and> net_contains env net ipx)"
  by (induction cidrs) (auto split: option.splits)

lemma any_subnet_contains_skip:
  "ip_network env bad = None \<Longrightarrow>
   any_subnet_contains env ipx (pre @ bad # post) = any_subnet_contains env ipx (pre @ post)"
  by (simp add: any_subnet_contains_iff)

lemma ipv4_not_address: "ipv4_address ''core-sw'' = None"
  by code_simp

lemma ipv4_seed_address: "ipv4_address ''10.0.0.1'' = Some 167772161"
  by code_simp

lemma ipv4_not_network: "ipv4_network ''not-a-cidr'' = None"
  by code_simp

lemma ipv4_office_network: "ipv4_network ''10.0.0.0/24'' = Some (167772160, 24)"
  by code_simp

lemma ipv4_seed_in_office: "ipv4_contains (167772160, 24) 167772161"
  by code_simp

lemma two_switches_lib:
  "ip_address two_switches = ipv4_address"
  "ip_network two_switches = ipv4_network"
  "net_contains two_switches = ipv4_contains"
  by (simp_all add: two_switches_def)

lemma resolve_core_sw:
  "resolve_nip two_switches (crawl_cfg\<lparr>allowed_subnets := a\<rparr>)
     \<lparr>device_id = ''core'', neigh_mgmt_ip = Some ''core-sw''\<rparr> = ''core-sw''"
  by (simp add: resolve_nip_def crawl_cfg_def strip_def is_space_def)

subsection \<open>Device identity\<close>

lemma extracted_key_has_no_address: "mgmt_ip (extract_device_key_from_collected c) = None"
  by (simp add: extract_device_key_from_collected_def Let_def)

lemma serial_less_key_is_unknown:
  "\<not> truthy (serial (extract_device_key_from_collected c)) \<Longrightarrow>
   best (extract_device_key_from_collected c) = ''unknown''"
  by (simp add: best_def extracted_key_has_no_address truthy_def)

text \<open>
  C1. The identity key of a device without serial number is meant to fall back to the
  management address, so that two such devices at distinct addresses get distinct keys and
  one report each. \<open>_extract_device_key_from_collected\<close> builds the key with the serial
  only, so \<open>best\<close> never sees an address: in the world \<open>two_switches\<close> both devices
  resolve the key \<open>unknown\<close>, both addresses are visited, and only the first device
  receives a report.
\<close>

theorem serial_less_devices_share_key:
  "best (extract_device_key_from_collected collected_A) = ''unknown'' \<and>
   best (extract_device_key_from_collected []) = ''unknown'' \<and>
   map_option seen_ips (crawl_loop 4 two_switches crawl_cfg (init_state crawl_cfg))
     = Some {''10.0.0.1'', ''10.0.0.2''} \<and>
   crawl_topology 4 two_switches crawl_cfg = Some [(''swA'', ''out/swA_levantamento.xlsx'')]"
  by code_simp

subsection \<open>Identity skip and neighbour expansion\<close>

text \<open>
  C2. When the identity key of a successfully collected device is already visited, one
  iteration of the scheduler leaves the results, the persisted snapshots, the generated
  reports and the visited keys unchanged, and still enqueues the neighbours of the freshly
  collected data when \<open>depth < max_depth\<close>: the queue is the one that a first visit of
  the same device (whose report is written without error) produces, and that first visit
  does add an entry to the results.
\<close>

theorem skip_keeps_expansion:
  assumes q: "queue st = (ip, depth) # q"
    and unseen: "ip \<notin> seen_ips st"
    and allowed: "in_allowed_subnets env ip (allowed_subnets cfg)"
    and coll: "collect env ip = Some (host, ts, c, outdir0)"
    and dir: "truthy (out_dir_override cfg) \<longrightarrow> makedirs_ok env (the (out_dir_override cfg))"
    and dup: "best (extract_device_key_from_collected c) \<in> visited_keys st"
  shows "results (crawl_step env cfg st) = results st \<and>
         snapshots (crawl_step env cfg st) = snapshots st \<and>
         excels (crawl_step env cfg st) = excels st \<and>
         visited_keys (crawl_step env cfg st) = visited_keys st \<and>
         queue (crawl_step env cfg st) =
           (if depth < max_depth cfg
            then enqueue_neighbors env cfg (insert ip (seen_ips st)) depth q
                   (extract_neighbors_from_collected c)
            else q) \<and>
         (\<forall>st0. queue st0 = queue st \<and> seen_ips st0 = seen_ips st
                \<and> best (extract_device_key_from_collected c) \<notin> visited_keys st0
                \<and> snapshot_ok env host ts
                \<and> excel_ok env (path_join (if truthy (out_dir_override cfg)
                                             then the (out_dir_override cfg) else outdir0)
                                           (host @ ''_levantamento.xlsx''))
            \<longrightarrow> queue (crawl_step env cfg st0) = queue (crawl_step env cfg st)
                \<and> results (crawl_step env cfg st0) = results st0 @
                     [(host, path_join (if truthy (out_dir_override cfg)
                                        then the (out_dir_override cfg) else outdir0)
                                       (host @ ''_levantamento.xlsx''))])"
  using assms
  by (auto simp: crawl_step_def visit_def report_def Let_def)

lemma neighbours_of_A:
  "extract_neighbors_from_collected collected_A
     = [\<lparr>device_id = ''swB'', neigh_mgmt_ip = Some ''10.0.0.2''\<rparr>]"
  by code_simp

lemma key_of_A: "best (extract_device_key_from_collected collected_A) = ''unknown''"
  by code_simp

lemma enqueue_B:
  "enqueue_neighbors two_switches crawl_cfg {''10.0.0.1''} 0 []
     [\<lparr>device_id = ''swB'', neigh_mgmt_ip = Some ''10.0.0.2''\<rparr>] = [(''10.0.0.2'', 1)]"
  by (simp add: enqueue_neighbors_def enqueue_neighbor_def resolve_nip_def crawl_cfg_def
      in_allowed_subnets_def strip_def is_space_def)

theorem skip_keeps_expansion_witness:
  "queue ((init_state crawl_cfg)\<lparr>visited_keys := {''unknown''}\<rparr>) = [(''10.0.0.1'', 0)] \<and>
   ''10.0.0.1'' \<notin> seen_ips ((init_state crawl_cfg)\<lparr>visited_keys := {''unknown''}\<rparr>) \<and>
   in_allowed_subnets two_switches ''10.0.0.1'' (allowed_subnets crawl_cfg) \<and>
   collect two_switches ''10.0.0.1'' = Some (''swA'', ''2024-01-01_00-00-00'', collected_A, ''out'') \<and>
   best (extract_device_key_from_collected collected_A)
     \<in> visited_keys ((init_state crawl_cfg)\<lparr>visited_keys := {''unknown''}\<rparr>) \<and>
   results (crawl_step two_switches crawl_cfg
              ((init_state crawl_cfg)\<lparr>visited_keys := {''unknown''}\<rparr>)) = [] \<and>
   snapshots (crawl_step two_switches crawl_cfg
              ((init_state crawl_cfg)\<lparr>visited_keys := {''unknown''}\<rparr>)) = [] \<and>
   queue (crawl_step two_switches crawl_cfg
              ((init_state crawl_cfg)\<lparr>visited_keys := {''unknown''}\<rparr>)) = [(''10.0.0.2'', 1)]"
proof -
  let ?st = "(init_state crawl_cfg)\<lparr>visited_keys := {''unknown''}\<rparr>"
  have h1: "queue ?st = (''10.0.0.1'', 0) # []"
    by (simp add: init_state_def crawl_cfg_def)
  have h2: "''10.0.0.1'' \<notin> seen_ips ?st"
    by (simp add: init_state_def)
  have h3: "in_allowed_subnets two_switches ''10.0.0.1'' (allowed_subnets crawl_cfg)"
    by (simp add: in_allowed_subnets_def crawl_cfg_def)
  have h4: "collect two_switches ''10.0.0.1''
              = Some (''swA'', ''2024-01-01_00-00-00'', collected_A, ''out'')"
    by (simp add: two_switches_def)
  have h5: "truthy (out_dir_override crawl_cfg)
              \<longrightarrow> makedirs_ok two_switches (the (out_dir_override crawl_cfg))"
    by (simp add: crawl_cfg_def truthy_def)
  have h6: "best (extract_device_key_from_collected collected_A) \<in> visited_keys ?st"
    by (simp add: key_of_A)
  have d: "(0::int) < max_depth crawl_cfg"
    by (simp add: crawl_cfg_def)
  have e: "results ?st = []" "snapshots ?st = []" "seen_ips ?st = {}"
    by (simp_all add: init_state_def)
  from skip_keeps_expansion [OF h1 h2 h3 h4 h5 h6] h1 h2 h3 h4 h6 show ?thesis
    by (simp add: d e neighbours_of_A enqueue_B)
qed

subsection \<open>Address resolution\<close>

text \<open>
  C3. For a neighbour whose name is a key of the host map, the resolved address is the
  host-map value, whatever the adjacency table or DNS gave before.
\<close>

theorem hostmap_overrides:
  "hostmap cfg = Some hm \<Longrightarrow> hm (device_id n) = Some a \<Longrightarrow> resolve_nip env cfg n = a"
  by (simp add: resolve_nip_def Let_def)

theorem hostmap_overrides_witness:
  "hostmap (crawl_cfg\<lparr>hostmap := Some [''swB'' \<mapsto> ''192.168.9.9'']\<rparr>)
     = Some [''swB'' \<mapsto> ''192.168.9.9''] \<and>
   [''swB'' \<mapsto> ''192.168.9.9'']
     (device_id \<lparr>device_id = ''swB'', neigh_mgmt_ip = Some ''10.0.0.2''\<rparr>) = Some ''192.168.9.9'' \<and>
   resolve_nip two_switches (crawl_cfg\<lparr>hostmap := Some [''swB'' \<mapsto> ''192.168.9.9'']\<rparr>)
     \<lparr>device_id = ''swB'', neigh_mgmt_ip = Some ''10.0.0.2''\<rparr> = ''192.168.9.9''"
  using hostmap_overrides [of "crawl_cfg\<lparr>hostmap := Some [''swB'' \<mapsto> ''192.168.9.9'']\<rparr>"
      "[''swB'' \<mapsto> ''192.168.9.9'']" "\<lparr>device_id = ''swB'', neigh_mgmt_ip = Some ''10.0.0.2''\<rparr>"
      "''192.168.9.9''" two_switches]
  by simp

subsection \<open>Allow-list\<close>

text \<open>
  C4, as stated: an allow-list with an unparsable CIDR string makes the crawl fail when it
  is called. It does not: with such a list the crawl of \<open>two_switches\<close> returns its
  result, the seed being admitted by the second, well-formed entry.
\<close>

theorem malformed_cidr_does_not_raise:
  "ip_network two_switches ''not-a-cidr'' = None \<and>
   crawl_topology 3 two_switches
     (crawl_cfg\<lparr>max_depth := 0, allowed_subnets := Some [''not-a-cidr'', ''10.0.0.0/24'']\<rparr>)
     = Some [(''swA'', ''out/swA_levantamento.xlsx'')]"
  by code_simp

text \<open>
  C4, amended: an unparsable CIDR string in the allow-list is skipped by the subnet check
  and never raises; the check gives what the other entries decide for a parsable address,
  and rejects an address that does not parse.
\<close>

theorem malformed_cidr_skipped:
  "ip_network env bad = None \<Longrightarrow>
   in_allowed_subnets env ip (Some (pre @ bad # post)) =
     (case ip_address env ip of None \<Rightarrow> False
      | Some ipx \<Rightarrow> any_subnet_contains env ipx (pre @ post))"
  using any_subnet_contains_skip [of env bad _ pre post]
  by (cases pre) (simp_all add: in_allowed_subnets_def split: option.splits)

theorem malformed_cidr_skipped_witness:
  "ip_network two_switches ''not-a-cidr'' = None \<and>
   in_allowed_subnets two_switches ''10.0.0.1'' (Some ([] @ ''not-a-cidr'' # [''10.0.0.0/24''])) \<and>
   \<not> in_allowed_subnets two_switches ''10.0.0.1'' (Some ([] @ ''not-a-cidr'' # []))"
  using malformed_cidr_skipped [of two_switches "''not-a-cidr''" "''10.0.0.1''" "[]" "[''10.0.0.0/24'']"]
    malformed_cidr_skipped [of two_switches "''not-a-cidr''" "''10.0.0.1''" "[]" "[]"]
    ipv4_not_network ipv4_seed_address ipv4_office_network ipv4_seed_in_office
  by (simp add: two_switches_lib)

text \<open>
  C10. The subnet check accepts every string when the allow-list is \<open>None\<close> or empty,
  and with a non-empty allow-list rejects every string that \<open>ip_address\<close> does not
  parse. So a neighbour whose resolved address is not an IP address is not enqueued under
  a non-empty allow-list, and is enqueued (when not empty and not seen yet) under an empty
  one.
\<close>

theorem subnet_check_non_ip:
  "((allowed = None \<or> allowed = Some []) \<longrightarrow> in_allowed_subnets env ip allowed) \<and>
   (allowed = Some (c # cs) \<and> ip_address env ip = None \<longrightarrow> \<not> in_allowed_subnets env ip allowed) \<and>
   (allowed_subnets cfg = Some (c # cs) \<and> ip_address env (resolve_nip env cfg n) = None
      \<longrightarrow> enqueue_neighbor env cfg seen depth q n = q) \<and>
   ((allowed_subnets cfg = None \<or> allowed_subnets cfg = Some []) \<and> resolve_nip env cfg n \<noteq> []
      \<and> resolve_nip env cfg n \<notin> seen
      \<longrightarrow> enqueue_neighbor env cfg seen depth q n = q @ [(resolve_nip env cfg n, depth + 1)])"
  by (auto simp: in_allowed_subnets_def enqueue_neighbor_def Let_def split: option.splits list.splits)

theorem subnet_check_non_ip_witness:
  "in_allowed_subnets two_switches ''core-sw'' None \<and>
   in_allowed_subnets two_switches ''core-sw'' (Some []) \<and>
   ip_address two_switches ''core-sw'' = None \<and>
   \<not> in_allowed_subnets two_switches ''core-sw'' (Some [''10.0.0.0/24'']) \<and>
   enqueue_neighbor two_switches (crawl_cfg\<lparr>allowed_subnets := Some [''10.0.0.0/24'']\<rparr>)
     {''10.0.0.1''} 0 [] \<lparr>device_id = ''core'', neigh_mgmt_ip = Some ''core-sw''\<rparr> = [] \<and>
   enqueue_neighbor two_switches (crawl_cfg\<lparr>allowed_subnets := Some []\<rparr>)
     {''10.0.0.1''} 0 [] \<lparr>device_id = ''core'', neigh_mgmt_ip = Some ''core-sw''\<rparr>
       = [(''core-sw'', 1)]"
  using subnet_check_non_ip [of None two_switches "''core-sw''" "''10.0.0.0/24''" "[]"
      "crawl_cfg\<lparr>allowed_subnets := Some [''10.0.0.0/24'']\<rparr>"
      "\<lparr>device_id = ''core'', neigh_mgmt_ip = Some ''core-sw''\<rparr>" "{''10.0.0.1''}" 0 "[]"]
    subnet_check_non_ip [of "Some []" two_switches "''core-sw''" "''10.0.0.0/24''" "[]"
      "crawl_cfg\<lparr>allowed_subnets := Some []\<rparr>"
      "\<lparr>device_id = ''core'', neigh_mgmt_ip = Some ''core-sw''\<rparr>" "{''10.0.0.1''}" 0 "[]"]
    subnet_check_non_ip [of "Some [''10.0.0.0/24'']" two_switches "''core-sw''" "''10.0.0.0/24''" "[]"
      "crawl_cfg\<lparr>allowed_subnets := Some [''10.0.0.0/24'']\<rparr>"
      "\<lparr>device_id = ''core'', neigh_mgmt_ip = Some ''core-sw''\<rparr>" "{''10.0.0.1''}" 0 "[]"]
    ipv4_not_address
  by (simp add: resolve_core_sw two_switches_lib)



section \<open>Properties of the diff engine\<close>

subsection \<open>Iteration order\<close>




subsection \<open>Allowed-VLAN ranges\<close>














subsection \<open>The difference of a snapshot with itself\<close>







subsection \<open>Neighbour merge\<close>

lemma merge_row_map_of:
  "map_of (merge_row r acc) =
     (case map_of acc (neighbor_key r) of
        None \<Rightarrow> (map_of acc)(neighbor_key r \<mapsto> r)
      | Some old \<Rightarrow>
          if local_if old = [] \<and> local_if r \<noteq> []
          then (map_of acc)(neighbor_key r \<mapsto> old\<lparr>local_if := local_if r\<rparr>)
          else map_of acc)"
  by (simp add: merge_row_def Let_def update_conv' split: option.splits)

lemma neighbor_key_local_if [simp]: "neighbor_key (r\<lparr>local_if := x\<rparr>) = neighbor_key r"
  by (simp add: neighbor_key_def)

lemma merge_row_distinct: "distinct (map fst acc) \<Longrightarrow> distinct (map fst (merge_row r acc))"
  by (simp add: merge_row_def Let_def distinct_update split: option.splits)

lemma fold_merge_distinct:
  "distinct (map fst acc) \<Longrightarrow> distinct (map fst (fold merge_row rows acc))"
  by (induction rows arbitrary: acc) (simp_all add: merge_row_distinct)

lemma merged_distinct: "distinct (map fst (merge_by_neighbor_port rows))"
  by (simp add: merge_by_neighbor_port_def fold_merge_distinct)

lemma merge_row_keyed:
  assumes "\<And>k e. map_of acc k = Some e \<Longrightarrow> neighbor_key e = k"
    and m: "map_of (merge_row r acc) k = Some e"
  shows "neighbor_key e = k"
proof (cases "map_of acc (neighbor_key r)")
  case None
  show ?thesis
  proof (cases "k = neighbor_key r")
    case True with m None show ?thesis by (simp add: merge_row_map_of)
  next
    case False
    with m None have "map_of acc k = Some e" by (simp add: merge_row_map_of)
    then show ?thesis by (rule assms(1))
  qed
next
  case (Some old)
  then have o: "neighbor_key old = neighbor_key r" by (rule assms(1))
  show ?thesis
  proof (cases "k = neighbor_key r")
    case True
    with m Some o show ?thesis by (auto simp: merge_row_map_of split: if_splits)
  next
    case False
    with m Some have "map_of acc k = Some e" by (simp add: merge_row_map_of split: if_splits)
    then show ?thesis by (rule assms(1))
  qed
qed

lemma fold_merge_keyed:
  assumes "\<And>k e. map_of acc k = Some e \<Longrightarrow> neighbor_key e = k"
    and "map_of (fold merge_row rows acc) k = Some e"
  shows "neighbor_key e = k"
  using assms
proof (induction rows arbitrary: acc)
  case Nil then show ?case by simp
next
  case (Cons x xs)
  show ?case
  proof (rule Cons.IH)
    show "map_of (fold merge_row xs (merge_row x acc)) k = Some e"
      using Cons.prems(2) by simp
    fix k' e' assume "map_of (merge_row x acc) k' = Some e'"
    then show "neighbor_key e' = k'"
      using merge_row_keyed Cons.prems(1) by blast
  qed
qed

lemma merged_keyed:
  "map_of (merge_by_neighbor_port rows) k = Some e \<Longrightarrow> neighbor_key e = k"
  using fold_merge_keyed [of "[]" rows k e] by (simp add: merge_by_neighbor_port_def)

lemma fold_merge_dom:
  "dom (map_of (fold merge_row rows acc)) = dom (map_of acc) \<union> neighbor_key ` set rows"
proof (induction rows arbitrary: acc)
  case Nil then show ?case by simp
next
  case (Cons x xs)
  have "dom (map_of (merge_row x acc)) = insert (neighbor_key x) (dom (map_of acc))"
    by (auto simp: merge_row_map_of split: option.splits if_splits)
  with Cons show ?case by simp
qed

lemma fold_merge_stable:
  "map_of acc k = Some old \<Longrightarrow> local_if old \<noteq> [] \<Longrightarrow>
   map_of (fold merge_row rows acc) k = Some old"
proof (induction rows arbitrary: acc)
  case Nil then show ?case by simp
next
  case (Cons x xs)
  from Cons.prems have "map_of (merge_row x acc) k = Some old"
    by (auto simp: merge_row_map_of split: option.splits)
  with Cons show ?case by simp
qed

lemma merge_row_filled:
  "neighbor_key x = k \<Longrightarrow> local_if x \<noteq> [] \<Longrightarrow>
   \<exists>e. map_of (merge_row x acc) k = Some e \<and> local_if e \<noteq> []"
  by (auto simp: merge_row_map_of split: option.splits)

lemma fold_merge_filled:
  "r' \<in> set rows \<Longrightarrow> neighbor_key r' = k \<Longrightarrow> local_if r' \<noteq> [] \<Longrightarrow>
   \<exists>e. map_of (fold merge_row rows acc) k = Some e \<and> local_if e \<noteq> []"
proof (induction rows arbitrary: acc)
  case Nil then show ?case by simp
next
  case (Cons x xs)
  show ?case
  proof (cases "neighbor_key x = k \<and> local_if x \<noteq> []")
    case True
    then obtain e where "map_of (merge_row x acc) k = Some e" "local_if e \<noteq> []"
      using merge_row_filled by blast
    then show ?thesis using fold_merge_stable by fastforce
  next
    case False
    with Cons.prems have "r' \<in> set xs" by auto
    with Cons show ?thesis by simp
  qed
qed

lemma fold_merge_source:
  "map_of (fold merge_row rows acc) k = Some r \<Longrightarrow> local_if r \<noteq> [] \<Longrightarrow>
   (\<exists>r'\<in>set rows. neighbor_key r' = k \<and> local_if r' = local_if r) \<or>
   (\<exists>old. map_of acc k = Some old \<and> local_if old = local_if r)"
proof (induction rows arbitrary: acc)
  case Nil then show ?case by simp
next
  case (Cons x xs)
  from Cons.prems have "map_of (fold merge_row xs (merge_row x acc)) k = Some r" by simp
  from Cons.IH [OF this Cons.prems(2)]
  show ?case
  proof
    assume "\<exists>r'\<in>set xs. neighbor_key r' = k \<and> local_if r' = local_if r"
    then show ?thesis by auto
  next
    assume "\<exists>old. map_of (merge_row x acc) k = Some old \<and> local_if old = local_if r"
    then obtain old where o: "map_of (merge_row x acc) k = Some old" "local_if old = local_if r"
      by blast
    then show ?thesis
      by (auto simp: merge_row_map_of split: option.splits if_splits)
  qed
qed

lemma one_entry_per_key:
  "distinct (map fst al) \<Longrightarrow>
   length (filter (\<lambda>e. fst e = k) al) = (if k \<in> fst ` set al then 1 else 0)"
  by (induction al) (auto simp: image_iff)

lemma refs_at_keys:
  assumes "\<And>k e. map_of rows k = Some e \<Longrightarrow> neighbor_key e = k"
  shows "map ref_key (refs_at rows ks) = filter (\<lambda>k. map_of rows k \<noteq> None) ks"
proof (induction ks)
  case Nil then show ?case by (simp add: refs_at_def)
next
  case (Cons k ks)
  have r: "refs_at rows (k # ks)
             = (case map_of rows k of None \<Rightarrow> [] | Some e \<Rightarrow> [ref_of e]) @ refs_at rows ks"
    by (simp add: refs_at_def)
  have key: "\<And>e. map_of rows k = Some e \<Longrightarrow> ref_key (ref_of e) = k"
    using assms by (simp add: ref_key_def ref_of_def neighbor_key_def)
  show ?case using Cons key by (simp add: r split: option.splits)
qed

lemma at_most_once: "distinct xs \<Longrightarrow> length (filter (\<lambda>x. x = k) xs) \<le> Suc 0"
  by (induction xs) (auto simp: filter_empty_conv)

lemma refs_at_once:
  assumes "\<And>k e. map_of rows k = Some e \<Longrightarrow> neighbor_key e = k" "distinct ks"
  shows "length (filter (\<lambda>e. ref_key e = k) (refs_at rows ks)) \<le> Suc 0"
proof -
  have d: "distinct (map ref_key (refs_at rows ks))"
    using assms by (simp add: refs_at_keys)
  have "length (filter (\<lambda>e. ref_key e = k) (refs_at rows ks))
          = length (filter (\<lambda>k'. k' = k) (map ref_key (refs_at rows ks)))"
    by (simp add: filter_map comp_def)
  also have "\<dots> \<le> Suc 0"
    using d by (rule at_most_once)
  finally show ?thesis .
qed

lemma example_rows:
  "collect_neighbors (snapshot_to_cmdmap snap_example) =
     [\<lparr>neighbor = ''swB'', local_if = ''Gi1/0/1'', neighbor_if = ''Gi0/1'', proto = ''CDP''\<rparr>,
      \<lparr>neighbor = ''SWB'', local_if = [], neighbor_if = ''gi0/1'', proto = ''LLDP''\<rparr>]"
  by code_simp

lemma example_keys:
  "neighbor_key \<lparr>neighbor = ''swB'', local_if = ''Gi1/0/1'', neighbor_if = ''Gi0/1'', proto = ''CDP''\<rparr>
     = (''swb'', ''gi0/1'')"
  "neighbor_key \<lparr>neighbor = ''SWB'', local_if = [], neighbor_if = ''gi0/1'', proto = ''LLDP''\<rparr>
     = (''swb'', ''gi0/1'')"
  by code_simp+

lemma example_merged:
  "merge_by_neighbor_port (collect_neighbors (snapshot_to_cmdmap snap_example)) =
     [((''swb'', ''gi0/1''),
       \<lparr>neighbor = ''swB'', local_if = ''Gi1/0/1'', neighbor_if = ''Gi0/1'', proto = ''CDP''\<rparr>)]"
  by code_simp

text \<open>
  C9. When one adjacency (same neighbour name and same remote port up to case) is among the
  CDP rows and among the LLDP rows of a snapshot, the merged map has exactly one entry for
  its key; if one of the two rows has a local interface, the entry has one, taken from a
  row of that key. In the neighbour delta of every pair of snapshots the adjacency is listed
  at most once among the added and at most once among the removed entries.
\<close>

theorem adjacency_merged_once:
  assumes "r1 \<in> set (collect_neighbors m)" "proto r1 = ''CDP''" "neighbor_key r1 = k"
    and "r2 \<in> set (collect_neighbors m)" "proto r2 = ''LLDP''" "neighbor_key r2 = k"
  shows "length (filter (\<lambda>e. fst e = k) (merge_by_neighbor_port (collect_neighbors m))) = 1 \<and>
         (\<exists>r. map_of (merge_by_neighbor_port (collect_neighbors m)) k = Some r \<and>
              neighbor_key r = k \<and>
              (local_if r1 \<noteq> [] \<or> local_if r2 \<noteq> [] \<longrightarrow>
                 local_if r \<noteq> [] \<and>
                 (\<exists>r'\<in>set (collect_neighbors m). neighbor_key r' = k \<and> local_if r = local_if r'))) \<and>
         length (filter (\<lambda>e. ref_key e = k)
                   (neighbors_added (diff_neighbors old_map new_map))) \<le> 1 \<and>
         length (filter (\<lambda>e. ref_key e = k)
                   (neighbors_removed (diff_neighbors old_map new_map))) \<le> 1"
proof -
  let ?rows = "collect_neighbors m"
  let ?M = "merge_by_neighbor_port ?rows"
  have dom: "dom (map_of ?M) = neighbor_key ` set ?rows"
    using fold_merge_dom [of ?rows "[]"] by (simp add: merge_by_neighbor_port_def)
  with assms(1,3) have "k \<in> dom (map_of ?M)" by blast
  then obtain r where r: "map_of ?M k = Some r" by blast
  then have kin: "k \<in> fst ` set ?M" by (metis map_of_eq_None_iff option.distinct(1))
  have one: "length (filter (\<lambda>e. fst e = k) ?M) = 1"
    using one_entry_per_key [OF merged_distinct, of k ?rows] kin by simp
  have keyed: "neighbor_key r = k" using merged_keyed [OF r] .
  have filled: "local_if r \<noteq> [] \<and>
                (\<exists>r'\<in>set ?rows. neighbor_key r' = k \<and> local_if r = local_if r')"
    if "local_if r1 \<noteq> [] \<or> local_if r2 \<noteq> []"
  proof -
    from that assms obtain r0 where "r0 \<in> set ?rows" "neighbor_key r0 = k" "local_if r0 \<noteq> []"
      by blast
    from fold_merge_filled [OF this, of "[]"] r have ne: "local_if r \<noteq> []"
      by (simp add: merge_by_neighbor_port_def)
    from fold_merge_source [of ?rows "[]" k r] r ne
    have "\<exists>r'\<in>set ?rows. neighbor_key r' = k \<and> local_if r' = local_if r"
      by (simp add: merge_by_neighbor_port_def)
    with ne show ?thesis by metis
  qed
  have added: "length (filter (\<lambda>e. ref_key e = k)
                        (neighbors_added (diff_neighbors old_map new_map))) \<le> 1"
    using refs_at_once [of "merge_by_neighbor_port (collect_neighbors new_map)" _ k,
                        OF merged_keyed]
    by (simp add: diff_neighbors_def Let_def)
  have removed: "length (filter (\<lambda>e. ref_key e = k)
                          (neighbors_removed (diff_neighbors old_map new_map))) \<le> 1"
    using refs_at_once [of "merge_by_neighbor_port (collect_neighbors old_map)" _ k,
                        OF merged_keyed]
    by (simp add: diff_neighbors_def Let_def)
  from one r keyed filled added removed show ?thesis by blast
qed

theorem adjacency_merged_once_witness:
  "\<lparr>neighbor = ''swB'', local_if = ''Gi1/0/1'', neighbor_if = ''Gi0/1'', proto = ''CDP''\<rparr>
     \<in> set (collect_neighbors (snapshot_to_cmdmap snap_example)) \<and>
   \<lparr>neighbor = ''SWB'', local_if = [], neighbor_if = ''gi0/1'', proto = ''LLDP''\<rparr>
     \<in> set (collect_neighbors (snapshot_to_cmdmap snap_example)) \<and>
   length (filter (\<lambda>e. fst e = (''swb'', ''gi0/1''))
            (merge_by_neighbor_port (collect_neighbors (snapshot_to_cmdmap snap_example)))) = 1 \<and>
   map_option local_if
     (map_of (merge_by_neighbor_port (collect_neighbors (snapshot_to_cmdmap snap_example)))
        (''swb'', ''gi0/1'')) = Some ''Gi1/0/1'' \<and>
   length (filter (\<lambda>e. ref_key e = (''swb'', ''gi0/1''))
            (neighbors_added (diff_neighbors [] (snapshot_to_cmdmap snap_example)))) \<le> 1"
proof -
  let ?r1 = "\<lparr>neighbor = ''swB'', local_if = ''Gi1/0/1'', neighbor_if = ''Gi0/1'', proto = ''CDP''\<rparr>"
  let ?r2 = "\<lparr>neighbor = ''SWB'', local_if = [], neighbor_if = ''gi0/1'', proto = ''LLDP''\<rparr>"
  let ?m = "snapshot_to_cmdmap snap_example"
  have h1: "?r1 \<in> set (collect_neighbors ?m)" and h2: "?r2 \<in> set (collect_neighbors ?m)"
    by (simp_all add: example_rows)
  have p1: "proto ?r1 = ''CDP''" and p2: "proto ?r2 = ''LLDP''"
    by simp_all
  note t = adjacency_merged_once [OF h1 p1 example_keys(1) h2 p2 example_keys(2), of "[]" ?m]
  have l: "map_option local_if (map_of (merge_by_neighbor_port (collect_neighbors ?m))
             (''swb'', ''gi0/1'')) = Some ''Gi1/0/1''"
    by (simp add: example_merged)
  from t h1 h2 l show ?thesis by simp
qed


subsection \<open>The first snapshot of a device\<close>
















section \<open>Properties of the snapshot store\<close>




















end
